theory Spec2Isabelle
  imports Complex_Main "HOL-Library.Word"
begin

section \<open>Scalars, arrays and small matrices\<close>

text \<open>
  The programs compute in C++ \<open>double\<close> with Eigen arrays. The embedding reads a
  \<open>double\<close> as a \<open>real\<close> (no rounding, no infinities, no NaN) and an Eigen vector or
  array as a list. The HOL quotient \<open>x / 0 = 0\<close> is not what a \<open>double\<close> gives at
  a zero divisor, so the quotients of arrays are formed as doubles first, where
  a division by zero shows; none of the worked examples with a value computed
  from a quotient has a zero divisor.
  Counters of type \<open>size_t\<close> are 64-bit words.
\<close>

type_synonym MatrixX2 = "real list \<times> real list"
  \<comment> \<open>an n-by-2 matrix, held by its two columns (Eigen stores column-major)\<close>

type_synonym Matrix2X = "real list \<times> real list"
  \<comment> \<open>a 2-by-n matrix, held by its two rows\<close>

type_synonym Matrix2d = "(real \<times> real) \<times> (real \<times> real)"
  \<comment> \<open>a 2-by-2 matrix, held by its two rows\<close>

type_synonym Vector2d = "real \<times> real"

text \<open>
  The quotient of two Eigen arrays is formed entry by entry as a \<open>double\<close>. For
  finite operands IEEE 754 gives a finite quotient when the divisor is not zero,
  and infinity, minus infinity or NaN when it is zero: \<open>NonFinite\<close>. The real
  arithmetic that follows reads a quotient through \<open>real_reading\<close>; for a
  non-finite one it reads the placeholder 0, which is also what the HOL quotient
  \<open>x / 0\<close> is.
\<close>

datatype ieee = Finite real | NonFinite

definition ieee_quotient :: "real \<Rightarrow> real \<Rightarrow> ieee" where
  "ieee_quotient a b = (if b = 0 then NonFinite else Finite (a / b))"

definition real_reading :: "ieee \<Rightarrow> real" where
  "real_reading q = (case q of Finite r \<Rightarrow> r | NonFinite \<Rightarrow> 0)"

definition cwiseQuotient_ieee :: "real list \<Rightarrow> real list \<Rightarrow> ieee list" where
  \<comment> \<open>\<open>a / b\<close> on Eigen arrays, entry by entry, as doubles\<close>
  "cwiseQuotient_ieee a b = map2 ieee_quotient a b"

definition cwiseQuotient :: "real list \<Rightarrow> real list \<Rightarrow> real list" where
  \<comment> \<open>\<open>a / b\<close> on Eigen arrays, read as reals\<close>
  "cwiseQuotient a b = map real_reading (cwiseQuotient_ieee a b)"

definition cwiseProduct :: "real list \<Rightarrow> real list \<Rightarrow> real list" where
  "cwiseProduct a b = map2 (*) a b"

definition cwiseDifference :: "real list \<Rightarrow> real list \<Rightarrow> real list" where
  \<comment> \<open>\<open>a - b\<close> on Eigen arrays: entry by entry\<close>
  "cwiseDifference a b = map2 (-) a b"

definition dot :: "real list \<Rightarrow> real list \<Rightarrow> real" where
  "dot a b = sum_list (cwiseProduct a b)"

definition transpose_X2 :: "MatrixX2 \<Rightarrow> Matrix2X" where
  \<comment> \<open>\<open>X.transpose()\<close>: the columns of \<open>X\<close> are the rows of its transpose\<close>
  "transpose_X2 X = X"

definition times_2X_X2 :: "Matrix2X \<Rightarrow> MatrixX2 \<Rightarrow> Matrix2d" where
  \<comment> \<open>the product of a 2-by-n and an n-by-2 matrix\<close>
  "times_2X_X2 A B =
     ((dot (fst A) (fst B), dot (fst A) (snd B)),
      (dot (snd A) (fst B), dot (snd A) (snd B)))"

definition times_2X_vec :: "Matrix2X \<Rightarrow> real list \<Rightarrow> Vector2d" where
  \<comment> \<open>the product of a 2-by-n matrix and an n-vector\<close>
  "times_2X_vec A y = (dot (fst A) y, dot (snd A) y)"

definition times_2X_asDiagonal :: "Matrix2X \<Rightarrow> real list \<Rightarrow> Matrix2X" where
  \<comment> \<open>\<open>A * W.asDiagonal()\<close>: column \<open>i\<close> of \<open>A\<close> is scaled by \<open>W[i]\<close>\<close>
  "times_2X_asDiagonal A W = (cwiseProduct (fst A) W, cwiseProduct (snd A) W)"

text \<open>
  Modelled from the spec: the spec has the fit solve \<open>(X\<^sup>t X) b = X\<^sup>t Y\<close>; the source
  calls Eigen's \<open>partialPivLu().solve\<close>, which is not among the sources. This is that
  algorithm on a 2-by-2 system: the row with the larger absolute entry in the
  first column is the pivot row (the first row on a tie), the other row is
  eliminated, and the two unknowns come from back substitution. The divisors are
  the pivot and the second diagonal entry \<open>u11\<close> of the upper factor; both are
  nonzero exactly when the matrix is regular.
\<close>

fun partialPivLu_solve :: "Matrix2d \<Rightarrow> Vector2d \<Rightarrow> Vector2d" where
  "partialPivLu_solve ((a00, a01), (a10, a11)) (r0, r1) =
     (if \<bar>a10\<bar> > \<bar>a00\<bar>
      then (let l = a00 / a10;
                u11 = a01 - l * a11;
                y1 = r0 - l * r1;
                x1 = y1 / u11;
                x0 = (r1 - a11 * x1) / a10
            in (x0, x1))
      else (let l = a10 / a00;
                u11 = a11 - l * a01;
                y1 = r1 - l * r0;
                x1 = y1 / u11;
                x0 = (r0 - a01 * x1) / a00
            in (x0, x1)))"

section \<open>The sequence descriptor and the SPGR signal equation\<close>

text \<open>
  \<open>DESPOT1::apply\<close> reads its sequence through \<open>flip()\<close>, \<open>TR()\<close>, \<open>size()\<close> and
  \<open>signal\<close>. The program passes an \<open>SPGRSimple\<close>: its flip angles (radians) and its
  repetition time; its size is the number of flip angles.
\<close>

record SequenceBase =
  flip :: "real list"
  TR :: real

definition SequenceBase_size :: "SequenceBase \<Rightarrow> 64 word" where
  "SequenceBase_size s = of_nat (length (flip s))"

text \<open>
  Modelled from the spec: \<open>One_SPGR\<close> (declared in \<open>SPGR.h\<close>, not among the sources)
  is the single-compartment spoiled gradient-echo equation
  \<open>E1 = exp(-TR / T1)\<close>, \<open>S(\<alpha>) = PD * sin(\<alpha>*B1) * (1 - E1) / (1 - E1*cos(\<alpha>*B1))\<close>,
  one complex value (with no imaginary part) per flip angle.
\<close>

definition One_SPGR :: "real list \<Rightarrow> real \<Rightarrow> real \<Rightarrow> real \<Rightarrow> real \<Rightarrow> complex list" where
  "One_SPGR flp tr PD T1 B1 =
     (let E1 = exp (- tr / T1)
      in map (\<lambda>a. complex_of_real
                 (PD * sin (a * B1) * (1 - E1) / (1 - E1 * cos (a * B1)))) flp)"

text \<open>
  Modelled from the spec: \<open>SequenceBase::signal\<close> for an \<open>SPGRSimple\<close> sequence and
  the single-compartment model \<open>SCD\<close> (\<open>Sequence.h\<close> and \<open>Model.h\<close>, not among the
  sources). The parameter vector is consumed by position: \<open>PD\<close>, \<open>T1\<close>, \<open>T2\<close>, \<open>f0\<close>,
  \<open>B1\<close>, as \<open>T1Functor\<close> fills it.
\<close>

definition signal :: "SequenceBase \<Rightarrow> real list \<Rightarrow> complex list" where
  "signal s p = One_SPGR (flip s) (TR s) (p ! 0) (p ! 1) (p ! 4)"

section \<open>The DESPOT1 algorithm (qdespot1.cpp)\<close>

datatype Type = LLS | WLLS | NLLS

record DESPOT1 =
  m_type :: Type
  m_iterations :: "64 word"

definition DESPOT1_new :: DESPOT1 where
  \<comment> \<open>the member initialisers: \<open>m_type = Type::LLS\<close>, \<open>m_iterations = 4\<close>\<close>
  "DESPOT1_new = \<lparr>m_type = LLS, m_iterations = 4\<rparr>"

definition setType :: "Type \<Rightarrow> DESPOT1 \<Rightarrow> DESPOT1" where
  "setType t this = this\<lparr>m_type := t\<rparr>"

definition setIterations :: "64 word \<Rightarrow> DESPOT1 \<Rightarrow> DESPOT1" where
  "setIterations n this = this\<lparr>m_iterations := n\<rparr>"

definition T1Functor :: "SequenceBase \<Rightarrow> real list \<Rightarrow> real \<Rightarrow> real list \<Rightarrow> real list" where
  \<comment> \<open>\<open>T1Functor::operator()\<close>: the differences the optimiser squares and sums\<close>
  "T1Functor cs m_data m_B1 params =
     (let fullParams = (take 2 params @ drop 2 (replicate 5 0))[4 := m_B1];
          s = signal cs fullParams
      in cwiseDifference (map cmod s) m_data)"

definition weights :: "SequenceBase \<Rightarrow> real list \<Rightarrow> real \<Rightarrow> real list" where
  \<comment> \<open>line 109: \<open>(flip.sin() / (1. - (exp(-sequence->TR()/outputs[1])*flip.cos()))).square()\<close>,
      with \<open>T1\<close> for \<open>outputs[1]\<close>\<close>
  "weights sequence flp T1 =
     map (\<lambda>x. x\<^sup>2)
       (cwiseQuotient (map sin flp)
          (map (\<lambda>c. 1 - exp (- TR sequence / T1) * c) (map cos flp)))"

definition wlls_pass ::
  "SequenceBase \<Rightarrow> real list \<Rightarrow> MatrixX2 \<Rightarrow> real list \<Rightarrow> real list \<Rightarrow> real list" where
  \<comment> \<open>the body of the reweighting loop (lines 109 to 112)\<close>
  "wlls_pass sequence flp X Y outputs =
     (let W = weights sequence flp (outputs ! 1);
          b = partialPivLu_solve
                (times_2X_X2 (times_2X_asDiagonal (transpose_X2 X) W) X)
                (times_2X_vec (times_2X_asDiagonal (transpose_X2 X) W) Y)
      in [snd b / (1 - fst b), - TR sequence / ln (fst b)])"

function wlls_loop ::
  "SequenceBase \<Rightarrow> real list \<Rightarrow> MatrixX2 \<Rightarrow> real list \<Rightarrow> 64 word \<Rightarrow> 64 word \<Rightarrow> real list
   \<Rightarrow> real list" where
  \<comment> \<open>\<open>for (size_t n = 0; n < m_iterations; n++)\<close>, entered with the counter \<open>n\<close>\<close>
  "wlls_loop sequence flp X Y its n outputs =
     (if n < its
      then wlls_loop sequence flp X Y its (n + 1) (wlls_pass sequence flp X Y outputs)
      else outputs)"
  by pat_completeness auto
termination
proof (relation "measure (\<lambda>(sequence, flp, X, Y, its, n, outputs). unat its - unat n)")
  show "wf (measure (\<lambda>(sequence, flp, X, Y, its, n, outputs). unat its - unat n))"
    by simp
next
  fix sequence :: SequenceBase and flp :: "real list" and X :: MatrixX2
    and Y :: "real list" and its n :: "64 word" and outputs :: "real list"
  assume less: "n < its"
  then have "unat (n + 1) = Suc (unat n)"
    by unat_arith
  moreover from less have "unat n < unat its"
    by (simp add: word_less_nat_alt)
  ultimately show "((sequence, flp, X, Y, its, n + 1, wlls_pass sequence flp X Y outputs),
                    (sequence, flp, X, Y, its, n, outputs))
                   \<in> measure (\<lambda>(sequence, flp, X, Y, its, n, outputs). unat its - unat n)"
    by simp
qed

declare wlls_loop.simps [simp del]

definition scaled_flip :: "SequenceBase \<Rightarrow> real \<Rightarrow> real list" where
  \<comment> \<open>line 98: \<open>ArrayXd flip = sequence->flip() * B1\<close>\<close>
  "scaled_flip sequence B1 = map (\<lambda>a. a * B1) (flip sequence)"

definition linear_Y :: "real list \<Rightarrow> real list \<Rightarrow> real list" where
  \<comment> \<open>line 99: \<open>Y = data.array() / flip.sin()\<close>; the divisors are \<open>map sin flp\<close>\<close>
  "linear_Y data flp = cwiseQuotient data (map sin flp)"

definition linear_X :: "real list \<Rightarrow> real list \<Rightarrow> real list \<Rightarrow> MatrixX2" where
  \<comment> \<open>lines 100 to 102: as many rows as \<open>Y\<close>, first column \<open>data.array() / flip.tan()\<close>
      (the divisors are \<open>map tan flp\<close>), second column ones\<close>
  "linear_X data flp Y = (cwiseQuotient data (map tan flp), replicate (length Y) 1)"

datatype abort = AssertionFailed

text \<open>
  \<open>DESPOT1::apply\<close>. The Eigen templates of the nonlinear path are not among the
  sources and are parameters: \<open>nDiff\<close> is \<open>NumericalDiff\<close>, which wraps a functor and
  supplies a Jacobian by differencing it, and \<open>minimize\<close> is
  \<open>LevenbergMarquardt::minimize\<close>, given the wrapped functor, the value passed to
  \<open>setMaxfev\<close> and the start vector, and returning the vector it leaves in place.

  The constants vector is read at index 0 and the data is divided entry by entry
  by an array as long as the flip angles; Eigen asserts the index and the equal
  sizes, and the \<open>T1Functor\<close> constructor asserts the latter as well (line 57).
  A violated assertion is the result \<open>Inl AssertionFailed\<close>; the source has no
  other exit than its end.
  The output vector has two entries: \<open>PD\<close> at index 0 and \<open>T1\<close> at index 1.
\<close>

definition DESPOT1_apply ::
  "((real list \<Rightarrow> real list) \<Rightarrow> 'nd) \<Rightarrow> ('nd \<Rightarrow> 64 word \<Rightarrow> real list \<Rightarrow> real list)
   \<Rightarrow> DESPOT1 \<Rightarrow> SequenceBase \<Rightarrow> real list \<Rightarrow> real list
   \<Rightarrow> abort + (real list \<times> real list)" where
  "DESPOT1_apply nDiff minimize this sequence data inputs =
     (if inputs = [] \<or> length data \<noteq> length (flip sequence) then Inl AssertionFailed
      else
        let B1 = inputs ! 0;
            flp = scaled_flip sequence B1;
            Y = linear_Y data flp;
            X = linear_X data flp Y;
            b = partialPivLu_solve (times_2X_X2 (transpose_X2 X) X)
                  (times_2X_vec (transpose_X2 X) Y);
            outputs = [snd b / (1 - fst b), - TR sequence / ln (fst b)];
            outputs =
              (if m_type this = WLLS
               then wlls_loop sequence flp X Y (m_iterations this) 0 outputs
               else if m_type this = NLLS
               then minimize (nDiff (T1Functor sequence data B1))
                      (m_iterations this * (SequenceBase_size sequence + 1)) outputs
               else outputs);
            theory = map cmod
                       (One_SPGR (flip sequence) (TR sequence) (outputs ! 0) (outputs ! 1) B1);
            resids = cwiseDifference data theory
        in Inr (outputs, resids))"

definition keep_start :: "(real list \<Rightarrow> real list) \<Rightarrow> 64 word \<Rightarrow> real list \<Rightarrow> real list" where
  \<comment> \<open>a stand-in optimiser for the worked examples: it leaves the start vector in place\<close>
  "keep_start f maxfev x = x"

text \<open>
  Three sequences for the worked examples. The flip angles other than 0 have
  rational sines and cosines (3/5 and 4/5; 4/5 and 3/5; 5/13 and 12/13); the
  repetition time is 5 ms.
\<close>

definition two_angles :: SequenceBase where
  "two_angles = \<lparr>flip = [arctan (3 / 4), arctan (4 / 3)], TR = 1 / 200\<rparr>"

definition three_angles :: SequenceBase where
  "three_angles = \<lparr>flip = [arctan (3 / 4), arctan (4 / 3), arctan (5 / 12)], TR = 1 / 200\<rparr>"


section \<open>The signal synthesis tool (qsignal.cpp)\<close>

subsection \<open>The file-level statics and the option switch of \<open>main\<close>\<close>

datatype Model = SCD | MCD2 | MCD3

record statics =
  model :: Model
  verbose :: bool
  prompt :: bool
  finitesequences :: bool
  outputComplex :: bool
  outPrefix :: string
  sigma :: real

definition statics_init :: statics where
  \<comment> \<open>the initialisers of lines 193 to 196\<close>
  "statics_init =
     \<lparr>model = SCD, verbose = False, prompt = True, finitesequences = False,
      outputComplex = False, outPrefix = [], sigma = 0\<rparr>"

text \<open>
  One pass of the \<open>switch (c)\<close> over the value \<open>c\<close> of \<open>getopt_long\<close> and its argument
  \<open>optarg\<close>; \<open>None\<close> is \<open>return EXIT_FAILURE\<close>. The C library's \<open>atof\<close> is a
  parameter. The mask reader (\<open>m\<close>) and the thread count (\<open>T\<close>) are not statics and
  leave them as they are.
\<close>

definition getopt_switch :: "(string \<Rightarrow> real) \<Rightarrow> statics \<Rightarrow> char \<times> string \<Rightarrow> statics option" where
  "getopt_switch atof g copt =
     (let c = fst copt; optarg = snd copt in
      if c = CHR ''v'' then Some (g\<lparr>verbose := True\<rparr>)
      else if c = CHR ''n'' then Some (g\<lparr>prompt := False\<rparr>)
      else if c = CHR ''N'' then Some (g\<lparr>sigma := atof optarg\<rparr>)
      else if c = CHR ''m'' then Some g
      else if c = CHR ''o'' then Some (g\<lparr>outPrefix := optarg\<rparr>)
      else if c = CHR ''1'' then Some (g\<lparr>model := SCD\<rparr>)
      else if c = CHR ''2'' then Some (g\<lparr>model := MCD2\<rparr>)
      else if c = CHR ''3'' then Some (g\<lparr>model := MCD3\<rparr>)
      else if c = CHR ''x'' then Some (g\<lparr>outputComplex := True\<rparr>)
      else if c = CHR ''M'' then
        (if take 1 optarg = ''s'' then Some (g\<lparr>finitesequences := False\<rparr>)
         else if take 1 optarg = ''f'' then Some (g\<lparr>finitesequences := True\<rparr>)
         else None)
      else if c = CHR ''T'' then Some g
      else None)"

subsection \<open>The filter\<close>

text \<open>
  \<open>SignalsFilter::ThreadedGenerateData\<close> walks the voxels of a region with one
  iterator per parameter image, the mask iterator (if there is a mask) and the
  output iterator in step. Here \<open>region\<close> holds, for each voxel, the values the
  parameter iterators give there; \<open>maskIter\<close> holds the mask's values if there is a
  mask; \<open>out\<close> is the output buffer over the region; \<open>k\<close> is the position of the
  iterators. The forward model \<open>m_sequence->signal(m_model, .)\<close>, the narrowing
  \<open>cast<complex<float>>\<close> and \<open>m_sequence->size()\<close> are the parameters \<open>sig\<close>,
  \<open>cast\<close> and \<open>n\<close>. The statics are passed in; the filter reads none of them.
\<close>

function ThreadedGenerateData ::
  "statics \<Rightarrow> (real list \<Rightarrow> complex list) \<Rightarrow> (complex \<Rightarrow> complex) \<Rightarrow> nat
   \<Rightarrow> real list list \<Rightarrow> real list option \<Rightarrow> nat \<Rightarrow> complex list list \<Rightarrow> complex list list" where
  "ThreadedGenerateData g sig cast n region maskIter k out =
     (if k < length region
      then ThreadedGenerateData g sig cast n region maskIter (Suc k)
             (if (case maskIter of None \<Rightarrow> True | Some m \<Rightarrow> m ! k \<noteq> 0)
              then (let parameters = region ! k;
                        allData = map cast (sig parameters);
                        dataVector = take n allData
                    in out[k := dataVector])
              else out)
      else out)"
  by pat_completeness auto
termination
  by (relation "measure (\<lambda>(g, sig, cast, n, region, maskIter, k, out). length region - k)") auto

declare ThreadedGenerateData.simps [simp del]

datatype written = WriteTimeseriesXF "complex list list" | WriteTimeseriesF "real list list"

definition write_sequence ::
  "statics \<Rightarrow> (real list \<Rightarrow> complex list) \<Rightarrow> (complex \<Rightarrow> complex) \<Rightarrow> nat
   \<Rightarrow> real list list \<Rightarrow> real list option \<Rightarrow> complex list list \<Rightarrow> written" where
  \<comment> \<open>the body of the loop over the sequences in \<open>main\<close> (lines 327 to 342): the
      filter's output is written as it is, or through the modulus filter\<close>
  "write_sequence g sig cast n region maskIter out =
     (let vol = ThreadedGenerateData g sig cast n region maskIter 0 out
      in if outputComplex g then WriteTimeseriesXF vol
         else WriteTimeseriesF (map (map cmod) vol))"

subsection \<open>Reading the sequences\<close>

datatype exn = runtime_error string

datatype SequenceClass =
  SPGRSimple | SPGRFinite | SSFPSimple | SSFPFinite | SSFPEllipse | IRSPGR | MPRAGE | AFI
  | MultiEcho

definition sequence_class :: "string \<Rightarrow> SequenceClass option" where
  \<comment> \<open>the chain of comparisons of lines 221 to 241; \<open>None\<close> is its last \<open>else\<close>\<close>
  "sequence_class type =
     (if type = ''SPGR'' then Some SPGRSimple
      else if type = ''SPGRFinite'' then Some SPGRFinite
      else if type = ''SSFP'' then Some SSFPSimple
      else if type = ''SSFPFinite'' then Some SSFPFinite
      else if type = ''SSFPEllipse'' then Some SSFPEllipse
      else if type = ''IRSPGR'' then Some IRSPGR
      else if type = ''MPRAGE'' then Some MPRAGE
      else if type = ''AFI'' then Some AFI
      else if type = ''SPINECHO'' then Some MultiEcho
      else None)"

text \<open>
  \<open>parseInput\<close>. \<open>Read\<close> (from \<open>Util.h\<close>) and the constructors of the sequence classes
  (from \<open>Sequence.h\<close>) are not among the sources and are parameters over a stream of
  any type: \<open>rd\<close> gives whether the read succeeded, the string read and the rest of
  the stream, or throws; \<open>make_shared\<close> builds a sequence of the given class from the
  stream and gives the rest of the stream, or throws. The loop runs as long as
  the stream feeds it, so it is a partial function: \<open>None\<close> is a loop that never
  ends, \<open>Some (Inl e)\<close> the exception \<open>e\<close> leaving \<open>parseInput\<close>, and
  \<open>Some (Inr ((cs, names), cin))\<close> its return with the two vectors and the stream.
\<close>

partial_function (option) parseInput ::
  "('i \<Rightarrow> exn + (bool \<times> string \<times> 'i)) \<Rightarrow> (SequenceClass \<Rightarrow> 'i \<Rightarrow> exn + ('s \<times> 'i))
   \<Rightarrow> 's list \<times> string list \<Rightarrow> 'i \<Rightarrow> (exn + (('s list \<times> string list) \<times> 'i)) option" where
  "parseInput rd make_shared acc cin =
     (case rd cin of
        Inl e \<Rightarrow> Some (Inl e)
      | Inr (ok, type, cin1) \<Rightarrow>
          if ok \<and> type \<noteq> ''END'' \<and> type \<noteq> ''''
          then (case sequence_class type of
                  None \<Rightarrow> Some (Inl (runtime_error (''Unknown signal type: '' @ type)))
                | Some c \<Rightarrow>
                    (case make_shared c cin1 of
                       Inl e \<Rightarrow> Some (Inl e)
                     | Inr (sq, cin2) \<Rightarrow>
                         (case rd cin2 of
                            Inl e \<Rightarrow> Some (Inl e)
                          | Inr (ok', filename, cin3) \<Rightarrow>
                              parseInput rd make_shared (fst acc @ [sq], snd acc @ [filename]) cin3)))
          else Some (Inr (acc, cin1)))"

definition Read_line :: "string list \<Rightarrow> exn + (bool \<times> string \<times> string list)" where
  \<comment> \<open>a stream for the worked examples: a list of lines, read one line at a time\<close>
  "Read_line cin = (case cin of [] \<Rightarrow> Inr (False, [], []) | l # ls \<Rightarrow> Inr (True, l, ls))"

definition make_class :: "SequenceClass \<Rightarrow> string list \<Rightarrow> exn + (SequenceClass \<times> string list)" where
  \<comment> \<open>a constructor for the worked examples: it reads nothing and keeps the class\<close>
  "make_class c cin = Inr (c, cin)"

section \<open>The fit as the specification words it\<close>

text \<open>
  The specification's linearisation, per condition index \<open>i\<close>:
  \<open>Y = S / sin(\<alpha> * B1)\<close> and \<open>X = S / tan(\<alpha> * B1)\<close>; its weight
  \<open>w(\<alpha>) = [sin(\<alpha>*B1) / (1 - E1*cos(\<alpha>*B1))]\<^sup>2\<close> with \<open>E1 = exp(-TR / T1)\<close>; and the
  normal equations of the weighted fit of \<open>Y\<close> on \<open>[X, 1]\<close> for the unknowns
  \<open>b0\<close> (slope) and \<open>b1\<close> (intercept). The ordinary fit has all weights 1.
\<close>

definition spec_X :: "SequenceBase \<Rightarrow> real list \<Rightarrow> real \<Rightarrow> nat \<Rightarrow> real" where
  "spec_X seq S B1 i = S ! i / tan (flip seq ! i * B1)"

definition spec_Y :: "SequenceBase \<Rightarrow> real list \<Rightarrow> real \<Rightarrow> nat \<Rightarrow> real" where
  "spec_Y seq S B1 i = S ! i / sin (flip seq ! i * B1)"

definition spec_weight :: "SequenceBase \<Rightarrow> real \<Rightarrow> real \<Rightarrow> nat \<Rightarrow> real" where
  "spec_weight seq T1 B1 i =
     (sin (flip seq ! i * B1) / (1 - exp (- TR seq / T1) * cos (flip seq ! i * B1)))\<^sup>2"

definition normal_equations ::
  "nat \<Rightarrow> (nat \<Rightarrow> real) \<Rightarrow> (nat \<Rightarrow> real) \<Rightarrow> (nat \<Rightarrow> real) \<Rightarrow> real \<Rightarrow> real \<Rightarrow> bool" where
  "normal_equations n w x y b0 b1 \<longleftrightarrow>
     (\<Sum>i<n. w i * x i * x i) * b0 + (\<Sum>i<n. w i * x i) * b1 = (\<Sum>i<n. w i * x i * y i) \<and>
     (\<Sum>i<n. w i * x i) * b0 + (\<Sum>i<n. w i) * b1 = (\<Sum>i<n. w i * y i)"

definition regular_system :: "nat \<Rightarrow> (nat \<Rightarrow> real) \<Rightarrow> (nat \<Rightarrow> real) \<Rightarrow> bool" where
  \<comment> \<open>the determinant of the normal equations is not zero\<close>
  "regular_system n w x \<longleftrightarrow>
     (\<Sum>i<n. w i * x i * x i) * (\<Sum>i<n. w i) - (\<Sum>i<n. w i * x i) * (\<Sum>i<n. w i * x i) \<noteq> 0"

definition spec_reweighted_pass ::
  "SequenceBase \<Rightarrow> real list \<Rightarrow> real \<Rightarrow> real list \<Rightarrow> real list" where
  \<comment> \<open>one reweighting pass: the weights at the current \<open>T1\<close>, the weighted solve, and
      \<open>PD\<close> and \<open>T1\<close> from the new \<open>b\<close>\<close>
  "spec_reweighted_pass seq S B1 out =
     (let n = length (flip seq);
          w = spec_weight seq (out ! 1) B1;
          x = spec_X seq S B1;
          y = spec_Y seq S B1;
          b = partialPivLu_solve
                ((\<Sum>i<n. w i * x i * x i, \<Sum>i<n. w i * x i), (\<Sum>i<n. w i * x i, \<Sum>i<n. w i))
                (\<Sum>i<n. w i * x i * y i, \<Sum>i<n. w i * y i)
      in [snd b / (1 - fst b), - TR seq / ln (fst b)])"

section \<open>Names for the parts of \<open>DESPOT1::apply\<close>\<close>

definition lls_outputs :: "SequenceBase \<Rightarrow> real list \<Rightarrow> real \<Rightarrow> real list" where
  \<comment> \<open>lines 98 to 105: the output vector after the ordinary solve\<close>
  "lls_outputs sequence data B1 =
     (let flp = scaled_flip sequence B1;
          Y = linear_Y data flp;
          X = linear_X data flp Y;
          b = partialPivLu_solve (times_2X_X2 (transpose_X2 X) X)
                (times_2X_vec (transpose_X2 X) Y)
      in [snd b / (1 - fst b), - TR sequence / ln (fst b)])"

definition residuals :: "SequenceBase \<Rightarrow> real list \<Rightarrow> real \<Rightarrow> real list \<Rightarrow> real list" where
  \<comment> \<open>lines 122 and 123: the residuals at the final output vector\<close>
  "residuals sequence data B1 outputs =
     cwiseDifference data
       (map cmod (One_SPGR (flip sequence) (TR sequence) (outputs ! 0) (outputs ! 1) B1))"

section \<open>Auxiliary facts\<close>

lemma real_reading_quotient: "real_reading (ieee_quotient a b) = a / b"
  by (simp add: real_reading_def ieee_quotient_def)

lemma cwiseQuotient_eq: "cwiseQuotient a b = map2 (/) a b"
  by (simp add: cwiseQuotient_def cwiseQuotient_ieee_def real_reading_quotient split_def)

lemma dot_sum: "dot a b = (\<Sum>i<min (length a) (length b). a ! i * b ! i)"
proof -
  have "dot a b = (\<Sum>i = 0..<length (zip a b). map2 (*) a b ! i)"
    by (simp add: dot_def cwiseProduct_def sum_list_sum_nth)
  also have "\<dots> = (\<Sum>i<min (length a) (length b). a ! i * b ! i)"
    by (simp add: atLeast0LessThan)
  finally show ?thesis .
qed

lemma gram_weighted:
  assumes "length c0 = n" and "length Wl = n"
  shows "times_2X_X2 (times_2X_asDiagonal (transpose_X2 (c0, replicate n 1)) Wl)
           (c0, replicate n 1)
         = ((\<Sum>i<n. Wl ! i * c0 ! i * c0 ! i, \<Sum>i<n. Wl ! i * c0 ! i),
            (\<Sum>i<n. Wl ! i * c0 ! i, \<Sum>i<n. Wl ! i))"
  using assms
  by (simp add: times_2X_X2_def times_2X_asDiagonal_def transpose_X2_def dot_sum
      cwiseProduct_def mult.commute)

lemma rhs_weighted:
  assumes "length c0 = n" and "length Wl = n" and "length Yl = n"
  shows "times_2X_vec (times_2X_asDiagonal (transpose_X2 (c0, replicate n 1)) Wl) Yl
         = (\<Sum>i<n. Wl ! i * c0 ! i * Yl ! i, \<Sum>i<n. Wl ! i * Yl ! i)"
  using assms
  by (simp add: times_2X_vec_def times_2X_asDiagonal_def transpose_X2_def dot_sum
      cwiseProduct_def mult.commute)

lemma gram_ordinary:
  assumes "length c0 = n"
  shows "times_2X_X2 (transpose_X2 (c0, replicate n 1)) (c0, replicate n 1)
         = ((\<Sum>i<n. c0 ! i * c0 ! i, \<Sum>i<n. c0 ! i), (\<Sum>i<n. c0 ! i, real n))"
  using assms
  by (simp add: times_2X_X2_def transpose_X2_def dot_sum cwiseProduct_def)

lemma rhs_ordinary:
  assumes "length c0 = n" and "length Yl = n"
  shows "times_2X_vec (transpose_X2 (c0, replicate n 1)) Yl
         = (\<Sum>i<n. c0 ! i * Yl ! i, \<Sum>i<n. Yl ! i)"
  using assms
  by (simp add: times_2X_vec_def transpose_X2_def dot_sum cwiseProduct_def)


lemma length_scaled_flip [simp]: "length (scaled_flip seq B1) = length (flip seq)"
  by (simp add: scaled_flip_def)

lemma length_linear_Y [simp]:
  "length (linear_Y data flp) = min (length data) (length flp)"
  by (simp add: linear_Y_def cwiseQuotient_eq)

lemma linear_X_columns:
  "length data = length flp \<Longrightarrow>
   linear_X data flp (linear_Y data flp)
   = (cwiseQuotient data (map tan flp), replicate (length data) 1)"
  by (simp add: linear_X_def)

lemma nth_linear_Y:
  "length data = length (flip seq) \<Longrightarrow> i < length data \<Longrightarrow>
   linear_Y data (scaled_flip seq B1) ! i = spec_Y seq data B1 i"
  by (simp add: linear_Y_def cwiseQuotient_eq scaled_flip_def spec_Y_def)

lemma nth_linear_X:
  "length data = length (flip seq) \<Longrightarrow> i < length data \<Longrightarrow>
   cwiseQuotient data (map tan (scaled_flip seq B1)) ! i = spec_X seq data B1 i"
  by (simp add: cwiseQuotient_eq scaled_flip_def spec_X_def)

lemma length_weights: "length (weights seq flp T1) = length flp"
  by (simp add: weights_def cwiseQuotient_eq)

lemma nth_weights:
  "i < length (flip seq) \<Longrightarrow>
   weights seq (scaled_flip seq B1) T1 ! i = spec_weight seq T1 B1 i"
  by (simp add: weights_def cwiseQuotient_eq scaled_flip_def spec_weight_def)

lemma wlls_pass_spec:
  assumes len: "length data = length (flip seq)"
  shows "wlls_pass seq (scaled_flip seq B1)
           (linear_X data (scaled_flip seq B1) (linear_Y data (scaled_flip seq B1)))
           (linear_Y data (scaled_flip seq B1)) out
         = spec_reweighted_pass seq data B1 out"
proof -
  define T1 where "T1 = out ! 1"
  let ?n = "length (flip seq)"
  let ?flp = "scaled_flip seq B1"
  let ?c0 = "cwiseQuotient data (map tan ?flp)"
  let ?Y = "linear_Y data ?flp"
  let ?W = "weights seq ?flp T1"
  have lc0: "length ?c0 = ?n" using len by (simp add: cwiseQuotient_eq)
  have lY: "length ?Y = ?n" using len by simp
  have lW: "length ?W = ?n" by (simp add: length_weights)
  have X: "linear_X data ?flp ?Y = (?c0, replicate ?n 1)"
    using len by (simp add: linear_X_columns)
  have c0: "\<And>i. i < ?n \<Longrightarrow> ?c0 ! i = spec_X seq data B1 i"
    using len by (simp add: nth_linear_X)
  have Y: "\<And>i. i < ?n \<Longrightarrow> ?Y ! i = spec_Y seq data B1 i"
    using len by (simp add: nth_linear_Y)
  have W: "\<And>i. i < ?n \<Longrightarrow> ?W ! i = spec_weight seq T1 B1 i"
    by (simp add: nth_weights)
  have A: "times_2X_X2 (times_2X_asDiagonal (transpose_X2 (?c0, replicate ?n 1)) ?W)
             (?c0, replicate ?n 1)
           = ((\<Sum>i<?n. spec_weight seq T1 B1 i * spec_X seq data B1 i * spec_X seq data B1 i,
               \<Sum>i<?n. spec_weight seq T1 B1 i * spec_X seq data B1 i),
              (\<Sum>i<?n. spec_weight seq T1 B1 i * spec_X seq data B1 i,
               \<Sum>i<?n. spec_weight seq T1 B1 i))"
    by (simp only: gram_weighted [OF lc0 lW]) (simp add: c0 W)
  have r: "times_2X_vec (times_2X_asDiagonal (transpose_X2 (?c0, replicate ?n 1)) ?W) ?Y
           = (\<Sum>i<?n. spec_weight seq T1 B1 i * spec_X seq data B1 i * spec_Y seq data B1 i,
              \<Sum>i<?n. spec_weight seq T1 B1 i * spec_Y seq data B1 i)"
    by (simp only: rhs_weighted [OF lc0 lW lY]) (simp add: c0 W Y)
  show ?thesis
    unfolding wlls_pass_def spec_reweighted_pass_def X T1_def [symmetric] A r Let_def
    by (rule refl)
qed


lemma wlls_loop_funpow:
  "wlls_loop sequence flp X Y its n outputs
   = (wlls_pass sequence flp X Y ^^ (unat its - unat n)) outputs"
proof (induction sequence flp X Y its n outputs rule: wlls_loop.induct)
  case (1 sequence flp X Y its n outputs)
  show ?case
  proof (cases "n < its")
    case True
    then have suc: "unat (n + 1) = Suc (unat n)"
      by unat_arith
    from True have lt: "unat n < unat its"
      by (simp add: word_less_nat_alt)
    then have split: "unat its - unat n = Suc (unat its - Suc (unat n))"
      by simp
    have "wlls_loop sequence flp X Y its n outputs
          = wlls_loop sequence flp X Y its (n + 1) (wlls_pass sequence flp X Y outputs)"
      using True by (subst wlls_loop.simps) simp
    also have "\<dots> = (wlls_pass sequence flp X Y ^^ (unat its - Suc (unat n)))
                       (wlls_pass sequence flp X Y outputs)"
      using "1.IH" [OF True] suc by simp
    also have "\<dots> = (wlls_pass sequence flp X Y ^^ (unat its - unat n)) outputs"
      by (subst split) (simp only: funpow_Suc_right o_apply)
    finally show ?thesis .
  next
    case False
    then have "unat its - unat n = 0"
      by (simp add: word_less_nat_alt)
    moreover from False have "wlls_loop sequence flp X Y its n outputs = outputs"
      by (subst wlls_loop.simps) simp
    ultimately show ?thesis by simp
  qed
qed

lemma wlls_loop_spec:
  assumes len: "length data = length (flip seq)"
  shows "wlls_loop seq (scaled_flip seq B1)
           (linear_X data (scaled_flip seq B1) (linear_Y data (scaled_flip seq B1)))
           (linear_Y data (scaled_flip seq B1)) its 0 out
         = (spec_reweighted_pass seq data B1 ^^ unat its) out"
proof -
  have "wlls_pass seq (scaled_flip seq B1)
           (linear_X data (scaled_flip seq B1) (linear_Y data (scaled_flip seq B1)))
           (linear_Y data (scaled_flip seq B1))
        = spec_reweighted_pass seq data B1"
    by (rule ext) (rule wlls_pass_spec [OF len])
  then show ?thesis
    by (simp add: wlls_loop_funpow)
qed

lemma DESPOT1_apply_aborts:
  "inputs = [] \<or> length data \<noteq> length (flip seq) \<Longrightarrow>
   DESPOT1_apply nDiff minimize this seq data inputs = Inl AssertionFailed"
  unfolding DESPOT1_apply_def by (simp only: if_True)

lemma DESPOT1_apply_lls:
  assumes "inputs \<noteq> []" and "length data = length (flip seq)"
  shows "DESPOT1_apply nDiff minimize \<lparr>m_type = LLS, m_iterations = k\<rparr> seq data inputs
         = Inr (lls_outputs seq data (inputs ! 0),
                residuals seq data (inputs ! 0) (lls_outputs seq data (inputs ! 0)))"
  using assms
  unfolding DESPOT1_apply_def lls_outputs_def residuals_def Let_def
  by simp



lemma DESPOT1_apply_wlls:
  assumes "inputs \<noteq> []" and "length data = length (flip seq)"
  shows "DESPOT1_apply nDiff minimize \<lparr>m_type = WLLS, m_iterations = its\<rparr> seq data inputs
         = Inr ((spec_reweighted_pass seq data (inputs ! 0) ^^ unat its)
                  (lls_outputs seq data (inputs ! 0)),
                residuals seq data (inputs ! 0)
                  ((spec_reweighted_pass seq data (inputs ! 0) ^^ unat its)
                     (lls_outputs seq data (inputs ! 0))))"
  using assms
  unfolding DESPOT1_apply_def lls_outputs_def residuals_def Let_def
  by (simp add: wlls_loop_spec)

lemma DESPOT1_apply_nlls:
  assumes "inputs \<noteq> []" and "length data = length (flip seq)"
  shows "DESPOT1_apply nDiff minimize \<lparr>m_type = NLLS, m_iterations = its\<rparr> seq data inputs
         = Inr (minimize (nDiff (T1Functor seq data (inputs ! 0)))
                  (its * (SequenceBase_size seq + 1)) (lls_outputs seq data (inputs ! 0)),
                residuals seq data (inputs ! 0)
                  (minimize (nDiff (T1Functor seq data (inputs ! 0)))
                     (its * (SequenceBase_size seq + 1)) (lls_outputs seq data (inputs ! 0))))"
  using assms
  unfolding DESPOT1_apply_def lls_outputs_def residuals_def Let_def
  by simp

subsection \<open>Worked examples\<close>

lemma sqrt_25_16: "sqrt (25 / 16) = 5 / 4"
  by (rule real_sqrt_unique) (simp_all add: power2_eq_square)

lemma sqrt_25_9: "sqrt (25 / 9) = 5 / 3"
  by (rule real_sqrt_unique) (simp_all add: power2_eq_square)

lemma sin_arctan_3_4: "sin (arctan (3 / 4)) = 3 / 5"
proof -
  have e: "1 + (3 / 4 :: real)\<^sup>2 = 25 / 16" by (simp add: power2_eq_square)
  show ?thesis unfolding sin_arctan e sqrt_25_16 by simp
qed

lemma cos_arctan_3_4: "cos (arctan (3 / 4)) = 4 / 5"
proof -
  have e: "1 + (3 / 4 :: real)\<^sup>2 = 25 / 16" by (simp add: power2_eq_square)
  show ?thesis unfolding cos_arctan e sqrt_25_16 by simp
qed

lemma sin_arctan_4_3: "sin (arctan (4 / 3)) = 4 / 5"
proof -
  have e: "1 + (4 / 3 :: real)\<^sup>2 = 25 / 9" by (simp add: power2_eq_square)
  show ?thesis unfolding sin_arctan e sqrt_25_9 by simp
qed

lemma cos_arctan_4_3: "cos (arctan (4 / 3)) = 3 / 5"
proof -
  have e: "1 + (4 / 3 :: real)\<^sup>2 = 25 / 9" by (simp add: power2_eq_square)
  show ?thesis unfolding cos_arctan e sqrt_25_9 by simp
qed

lemmas eigen_defs = scaled_flip_def linear_Y_def linear_X_def cwiseQuotient_eq
  cwiseProduct_def cwiseDifference_def dot_def times_2X_X2_def times_2X_vec_def
  times_2X_asDiagonal_def transpose_X2_def

lemma lls_outputs_two:
  "lls_outputs two_angles [3, 8] 1
   = [10 / 3, - (1 / 200) / ln (5 / 2)]"
  by (simp add: two_angles_def lls_outputs_def eigen_defs Let_def sin_arctan_3_4 sin_arctan_4_3 tan_arctan)

lemma residuals_two:
  "residuals two_angles [3, 8] 1
     [10 / 3, - (1 / 200) / ln (5 / 2)] = [0, 0]"
  by (simp add: two_angles_def residuals_def One_SPGR_def eigen_defs Let_def
      sin_arctan_3_4 sin_arctan_4_3 cos_arctan_3_4 cos_arctan_4_3 tan_arctan)

lemma sqrt_169_144: "sqrt (169 / 144) = 13 / 12"
  by (rule real_sqrt_unique) (simp_all add: power2_eq_square)

lemma sin_arctan_5_12: "sin (arctan (5 / 12)) = 5 / 13"
proof -
  have e: "1 + (5 / 12 :: real)\<^sup>2 = 169 / 144" by (simp add: power2_eq_square)
  show ?thesis unfolding sin_arctan e sqrt_169_144 by simp
qed

lemma cos_arctan_5_12: "cos (arctan (5 / 12)) = 12 / 13"
proof -
  have e: "1 + (5 / 12 :: real)\<^sup>2 = 169 / 144" by (simp add: power2_eq_square)
  show ?thesis unfolding cos_arctan e sqrt_169_144 by simp
qed

lemmas trig_values = sin_arctan_3_4 sin_arctan_4_3 cos_arctan_3_4 cos_arctan_4_3
  sin_arctan_5_12 cos_arctan_5_12 tan_arctan

lemma lls_outputs_three:
  "lls_outputs three_angles [3, 4, 5] 1 = [129 / 5, - (1 / 200) / ln (68 / 73)]"
  by (simp add: three_angles_def lls_outputs_def eigen_defs Let_def trig_values)

lemma residuals_three:
  "residuals three_angles [3, 4, 5] 1 [129 / 5, - (1 / 200) / ln (68 / 73)]
   = [- (36 / 31), 128 / 161, 20 / 133]"
  by (simp add: three_angles_def residuals_def One_SPGR_def eigen_defs Let_def trig_values)

lemma signal_three:
  "cmod (signal three_angles [129 / 5, - (1 / 200) / ln (68 / 73), 0, 0, 1] ! 0) = 129 / 31"
  by (simp add: three_angles_def signal_def One_SPGR_def Let_def trig_values)

lemma apply_three:
  "DESPOT1_apply nDiff minimize \<lparr>m_type = LLS, m_iterations = k\<rparr> three_angles [3, 4, 5] [1]
   = Inr ([129 / 5, - (1 / 200) / ln (68 / 73)], [- (36 / 31), 128 / 161, 20 / 133])"
proof -
  have a: "[1 :: real] \<noteq> []" by simp
  have b: "length [3, 4, 5 :: real] = length (flip three_angles)"
    by (simp add: three_angles_def)
  show ?thesis
    by (simp only: DESPOT1_apply_lls [OF a b] nth_Cons_0 lls_outputs_three residuals_three)
qed

lemma apply_sized:
  assumes "inputs \<noteq> []" and "length data = length (flip seq)"
  shows "\<exists>outputs. DESPOT1_apply nDiff minimize this seq data inputs
           = Inr (outputs, residuals seq data (inputs ! 0) outputs)"
proof -
  obtain t k where rec: "this = \<lparr>m_type = t, m_iterations = k\<rparr>"
    by (cases this) simp
  show ?thesis
  proof (cases t)
    case LLS
    then show ?thesis
      unfolding rec by (simp only: DESPOT1_apply_lls [OF assms]) blast
  next
    case WLLS
    then show ?thesis
      unfolding rec by (simp only: DESPOT1_apply_wlls [OF assms]) blast
  next
    case NLLS
    then show ?thesis
      unfolding rec by (simp only: DESPOT1_apply_nlls [OF assms]) blast
  qed
qed

lemma apply_residuals:
  assumes "DESPOT1_apply nDiff minimize this seq data inputs = Inr (outputs, resids)"
  shows "resids = residuals seq data (inputs ! 0) outputs"
    and "inputs \<noteq> []" and "length data = length (flip seq)"
proof -
  have ok: "\<not> (inputs = [] \<or> length data \<noteq> length (flip seq))"
  proof
    assume "inputs = [] \<or> length data \<noteq> length (flip seq)"
    then have "DESPOT1_apply nDiff minimize this seq data inputs = Inl AssertionFailed"
      by (rule DESPOT1_apply_aborts)
    with assms show False by simp
  qed
  then show "inputs \<noteq> []" and len: "length data = length (flip seq)"
    by simp_all
  from ok obtain out where
    "DESPOT1_apply nDiff minimize this seq data inputs
       = Inr (out, residuals seq data (inputs ! 0) out)"
    using apply_sized [of inputs data seq nDiff minimize this] by auto
  with assms show "resids = residuals seq data (inputs ! 0) outputs"
    by auto
qed

lemma nth_residuals:
  assumes "length data = length (flip seq)" and "i < length data"
  shows "residuals seq data B1 outputs ! i
         = data ! i - cmod (signal seq [outputs ! 0, outputs ! 1, 0, 0, B1] ! i)"
  using assms
  by (simp add: residuals_def cwiseDifference_def signal_def One_SPGR_def Let_def)

lemma length_residuals:
  "length data = length (flip seq) \<Longrightarrow> length (residuals seq data B1 outputs) = length data"
  by (simp add: residuals_def cwiseDifference_def One_SPGR_def Let_def)

subsection \<open>The solver, the start vector and the budget\<close>

lemma partialPivLu_solve_correct:
  assumes det: "a00 * a11 - a01 * a10 \<noteq> 0"
    and sol: "partialPivLu_solve ((a00, a01), (a10, a11)) (r0, r1) = (x0, x1)"
  shows "a00 * x0 + a01 * x1 = r0 \<and> a10 * x0 + a11 * x1 = r1"
proof (cases "\<bar>a10\<bar> > \<bar>a00\<bar>")
  case True
  then have p: "a10 \<noteq> 0" by auto
  with det have u: "a01 - a00 / a10 * a11 \<noteq> 0"
    by (simp add: field_simps)
  from sol True have x1: "x1 = (r0 - a00 / a10 * r1) / (a01 - a00 / a10 * a11)"
    and x0: "x0 = (r1 - a11 * x1) / a10"
    by (auto simp add: Let_def)
  from x1 u have e1: "x1 * (a01 - a00 / a10 * a11) = r0 - a00 / a10 * r1"
    by simp
  from x0 p have e0: "a10 * x0 = r1 - a11 * x1"
    by simp
  from e0 have second: "a10 * x0 + a11 * x1 = r1" by simp
  have "a00 * x0 = a00 / a10 * (a10 * x0)" using p by simp
  also have "\<dots> = a00 / a10 * (r1 - a11 * x1)" by (simp only: e0)
  finally have "a00 * x0 + a01 * x1 = a00 / a10 * r1 + x1 * (a01 - a00 / a10 * a11)"
    by (simp add: algebra_simps)
  with e1 have "a00 * x0 + a01 * x1 = r0" by simp
  with second show ?thesis by simp
next
  case False
  with det have p: "a00 \<noteq> 0" by auto
  with det have u: "a11 - a10 / a00 * a01 \<noteq> 0"
    by (simp add: field_simps)
  from sol False have x1: "x1 = (r1 - a10 / a00 * r0) / (a11 - a10 / a00 * a01)"
    and x0: "x0 = (r0 - a01 * x1) / a00"
    by (auto simp add: Let_def)
  from x1 u have e1: "x1 * (a11 - a10 / a00 * a01) = r1 - a10 / a00 * r0"
    by simp
  from x0 p have e0: "a00 * x0 = r0 - a01 * x1"
    by simp
  from e0 have first: "a00 * x0 + a01 * x1 = r0" by simp
  have "a10 * x0 = a10 / a00 * (a00 * x0)" using p by simp
  also have "\<dots> = a10 / a00 * (r0 - a01 * x1)" by (simp only: e0)
  finally have "a10 * x0 + a11 * x1 = a10 / a00 * r0 + x1 * (a11 - a10 / a00 * a01)"
    by (simp add: algebra_simps)
  with e1 have "a10 * x0 + a11 * x1 = r1" by simp
  with first show ?thesis by simp
qed

lemma lls_outputs_normal_equations:
  assumes len: "length data = length (flip seq)"
    and reg: "regular_system (length data) (\<lambda>i. 1) (spec_X seq data B1)"
  shows "\<exists>b0 b1. normal_equations (length data) (\<lambda>i. 1) (spec_X seq data B1)
                   (spec_Y seq data B1) b0 b1 \<and>
                 lls_outputs seq data B1 = [b1 / (1 - b0), - TR seq / ln b0]"
proof -
  let ?n = "length data"
  let ?flp = "scaled_flip seq B1"
  let ?c0 = "cwiseQuotient data (map tan ?flp)"
  let ?Y = "linear_Y data ?flp"
  let ?x = "spec_X seq data B1"
  let ?y = "spec_Y seq data B1"
  have lc0: "length ?c0 = ?n" using len by (simp add: cwiseQuotient_eq)
  have lY: "length ?Y = ?n" using len by simp
  have X: "linear_X data ?flp ?Y = (?c0, replicate ?n 1)"
    using len by (simp add: linear_X_columns)
  have c0: "\<And>i. i < ?n \<Longrightarrow> ?c0 ! i = ?x i"
    using len by (simp add: nth_linear_X)
  have Y: "\<And>i. i < ?n \<Longrightarrow> ?Y ! i = ?y i"
    using len by (simp add: nth_linear_Y)
  have A: "times_2X_X2 (transpose_X2 (?c0, replicate ?n 1)) (?c0, replicate ?n 1)
           = ((\<Sum>i<?n. ?x i * ?x i, \<Sum>i<?n. ?x i), (\<Sum>i<?n. ?x i, real ?n))"
    by (simp only: gram_ordinary [OF lc0]) (simp add: c0)
  have r: "times_2X_vec (transpose_X2 (?c0, replicate ?n 1)) ?Y
           = (\<Sum>i<?n. ?x i * ?y i, \<Sum>i<?n. ?y i)"
    by (simp only: rhs_ordinary [OF lc0 lY]) (simp add: c0 Y)
  obtain b0 b1 where b:
    "partialPivLu_solve ((\<Sum>i<?n. ?x i * ?x i, \<Sum>i<?n. ?x i), (\<Sum>i<?n. ?x i, real ?n))
       (\<Sum>i<?n. ?x i * ?y i, \<Sum>i<?n. ?y i) = (b0, b1)"
    by (cases "partialPivLu_solve ((\<Sum>i<?n. ?x i * ?x i, \<Sum>i<?n. ?x i), (\<Sum>i<?n. ?x i, real ?n))
       (\<Sum>i<?n. ?x i * ?y i, \<Sum>i<?n. ?y i)") blast
  from reg have det: "(\<Sum>i<?n. ?x i * ?x i) * real ?n - (\<Sum>i<?n. ?x i) * (\<Sum>i<?n. ?x i) \<noteq> 0"
    by (simp add: regular_system_def)
  from partialPivLu_solve_correct [OF det b]
  have ne: "normal_equations ?n (\<lambda>i. 1) ?x ?y b0 b1"
    by (simp add: normal_equations_def)
  have "lls_outputs seq data B1 = [b1 / (1 - b0), - TR seq / ln b0]"
    unfolding lls_outputs_def Let_def X A r b by simp
  with ne show ?thesis by blast
qed

lemma apply_two:
  "DESPOT1_apply nDiff minimize \<lparr>m_type = LLS, m_iterations = k\<rparr> two_angles [3, 8] [1]
   = Inr ([10 / 3, - (1 / 200) / ln (5 / 2)], [0, 0])"
proof -
  have a: "[1 :: real] \<noteq> []" by simp
  have b: "length [3, 8 :: real] = length (flip two_angles)"
    by (simp add: two_angles_def)
  show ?thesis
    by (simp only: DESPOT1_apply_lls [OF a b] nth_Cons_0 lls_outputs_two residuals_two)
qed

lemma regular_two: "regular_system (length [3, 8 :: real]) (\<lambda>i. 1) (spec_X two_angles [3, 8] ([1] ! 0))"
  by (simp add: regular_system_def spec_X_def two_angles_def lessThan_Suc numeral_2_eq_2 tan_arctan)

lemma apply_lls_outputs:
  assumes "DESPOT1_apply nDiff minimize \<lparr>m_type = LLS, m_iterations = k\<rparr> seq data inputs
           = Inr (out0, res0)"
  shows "out0 = lls_outputs seq data (inputs ! 0)"
proof -
  note ok = apply_residuals(2,3) [OF assms]
  from assms show ?thesis
    by (simp add: DESPOT1_apply_lls [OF ok])
qed

lemma T1Functor_two_params:
  "T1Functor seq data B1 [PD, T1]
   = map2 (\<lambda>s d. cmod s - d) (signal seq [PD, T1, 0, 0, B1]) data"
  by (simp add: T1Functor_def cwiseDifference_def Let_def numeral_2_eq_2 numeral_eq_Suc
      zip_map1 split_def)

lemma budget_no_wrap:
  assumes "unat its * (length (flip seq) + 1) < 2 ^ 64"
  shows "unat (its * (SequenceBase_size seq + 1)) = unat its * (length (flip seq) + 1)"
proof (cases "its = 0")
  case True
  then show ?thesis by simp
next
  case False
  then have "unat its \<noteq> 0"
    by (simp add: unat_eq_0)
  then have "1 \<le> unat its"
    by simp
  then have "1 * (length (flip seq) + 1) \<le> unat its * (length (flip seq) + 1)"
    by (rule mult_le_mono1)
  with assms have small: "length (flip seq) + 1 < 2 ^ LENGTH(64)"
    by simp
  have s: "SequenceBase_size seq + 1 = (of_nat (length (flip seq) + 1) :: 64 word)"
    by (simp add: SequenceBase_size_def)
  have u: "unat (of_nat (length (flip seq) + 1) :: 64 word) = length (flip seq) + 1"
    using small by (simp only: unat_of_nat mod_less)
  from assms u have "unat its * unat (of_nat (length (flip seq) + 1) :: 64 word) < 2 ^ LENGTH(64)"
    by simp
  then have m: "unat (its * (of_nat (length (flip seq) + 1) :: 64 word))
             = unat its * unat (of_nat (length (flip seq) + 1) :: 64 word)"
    by (simp only: unat_mult_lem)
  show ?thesis by (simp only: s m u)
qed

lemma apply_returns_iff:
  "(\<exists>outputs resids. DESPOT1_apply nDiff minimize this seq data inputs = Inr (outputs, resids))
   \<longleftrightarrow> inputs \<noteq> [] \<and> length data = length (flip seq)"
proof
  assume "\<exists>outputs resids. DESPOT1_apply nDiff minimize this seq data inputs = Inr (outputs, resids)"
  then obtain outputs resids where
    "DESPOT1_apply nDiff minimize this seq data inputs = Inr (outputs, resids)"
    by blast
  from apply_residuals(2,3) [OF this]
  show "inputs \<noteq> [] \<and> length data = length (flip seq)"
    by simp
next
  assume "inputs \<noteq> [] \<and> length data = length (flip seq)"
  then have "inputs \<noteq> []" and "length data = length (flip seq)"
    by simp_all
  from apply_sized [OF this, of nDiff minimize this]
  show "\<exists>outputs resids. DESPOT1_apply nDiff minimize this seq data inputs = Inr (outputs, resids)"
    by blast
qed

lemma normal_equations_unique:
  assumes reg: "regular_system n w x"
    and b: "normal_equations n w x y b0 b1"
    and c: "normal_equations n w x y c0 c1"
  shows "b0 = c0 \<and> b1 = c1"
proof -
  define A where "A = (\<Sum>i<n. w i * x i * x i)"
  define B where "B = (\<Sum>i<n. w i * x i)"
  define C where "C = (\<Sum>i<n. w i)"
  define d0 where "d0 = b0 - c0"
  define d1 where "d1 = b1 - c1"
  from reg have det: "A * C - B * B \<noteq> 0"
    by (simp add: regular_system_def A_def B_def C_def)
  from b c have e1: "A * d0 + B * d1 = 0" and e2: "B * d0 + C * d1 = 0"
    by (simp_all add: normal_equations_def A_def B_def C_def d0_def d1_def algebra_simps)
  have "(A * C - B * B) * d0 = C * (A * d0 + B * d1) - B * (B * d0 + C * d1)"
    by (simp add: algebra_simps)
  with e1 e2 det have "d0 = 0" by simp
  moreover have "(A * C - B * B) * d1 = A * (B * d0 + C * d1) - B * (A * d0 + B * d1)"
    by (simp add: algebra_simps)
  with e1 e2 det have "d1 = 0" by simp
  ultimately show ?thesis by (simp add: d0_def d1_def)
qed

lemma normal_two:
  "normal_equations (length [3, 8 :: real]) (\<lambda>i. 1) (spec_X two_angles [3, 8] ([1] ! 0))
     (spec_Y two_angles [3, 8] ([1] ! 0)) (5 / 2) (- 5)"
  by (simp add: normal_equations_def spec_X_def spec_Y_def two_angles_def lessThan_Suc
      numeral_2_eq_2 tan_arctan sin_arctan_3_4 sin_arctan_4_3)

lemma lls_outputs_sums:
  assumes len: "length data = length (flip seq)"
  shows "lls_outputs seq data B1
         = (let n = length data; x = spec_X seq data B1; y = spec_Y seq data B1;
                b = partialPivLu_solve
                      ((\<Sum>i<n. x i * x i, \<Sum>i<n. x i), (\<Sum>i<n. x i, real n))
                      (\<Sum>i<n. x i * y i, \<Sum>i<n. y i)
            in [snd b / (1 - fst b), - TR seq / ln (fst b)])"
proof -
  let ?n = "length data"
  let ?flp = "scaled_flip seq B1"
  let ?c0 = "cwiseQuotient data (map tan ?flp)"
  let ?Y = "linear_Y data ?flp"
  let ?x = "spec_X seq data B1"
  let ?y = "spec_Y seq data B1"
  have lc0: "length ?c0 = ?n" using len by (simp add: cwiseQuotient_eq)
  have lY: "length ?Y = ?n" using len by simp
  have X: "linear_X data ?flp ?Y = (?c0, replicate ?n 1)"
    using len by (simp add: linear_X_columns)
  have c0: "\<And>i. i < ?n \<Longrightarrow> ?c0 ! i = ?x i"
    using len by (simp add: nth_linear_X)
  have Y: "\<And>i. i < ?n \<Longrightarrow> ?Y ! i = ?y i"
    using len by (simp add: nth_linear_Y)
  have A: "times_2X_X2 (transpose_X2 (?c0, replicate ?n 1)) (?c0, replicate ?n 1)
           = ((\<Sum>i<?n. ?x i * ?x i, \<Sum>i<?n. ?x i), (\<Sum>i<?n. ?x i, real ?n))"
    by (simp only: gram_ordinary [OF lc0]) (simp add: c0)
  have r: "times_2X_vec (transpose_X2 (?c0, replicate ?n 1)) ?Y
           = (\<Sum>i<?n. ?x i * ?y i, \<Sum>i<?n. ?y i)"
    by (simp only: rhs_ordinary [OF lc0 lY]) (simp add: c0 Y)
  show ?thesis
    unfolding lls_outputs_def Let_def X A r by (rule refl)
qed

lemma solve_normal_equations:
  assumes reg: "regular_system n w x"
    and b: "partialPivLu_solve
              ((\<Sum>i<n. w i * x i * x i, \<Sum>i<n. w i * x i), (\<Sum>i<n. w i * x i, \<Sum>i<n. w i))
              (\<Sum>i<n. w i * x i * y i, \<Sum>i<n. w i * y i) = (b0, b1)"
  shows "normal_equations n w x y b0 b1"
proof -
  from reg have det:
    "(\<Sum>i<n. w i * x i * x i) * (\<Sum>i<n. w i) - (\<Sum>i<n. w i * x i) * (\<Sum>i<n. w i * x i) \<noteq> 0"
    by (simp add: regular_system_def)
  from partialPivLu_solve_correct [OF det b] show ?thesis
    by (simp add: normal_equations_def)
qed

lemma spec_reweighted_pass_solves:
  assumes "regular_system (length (flip seq)) (spec_weight seq (out ! 1) B1) (spec_X seq S B1)"
  shows "\<exists>b0 b1.
           normal_equations (length (flip seq)) (spec_weight seq (out ! 1) B1)
             (spec_X seq S B1) (spec_Y seq S B1) b0 b1 \<and>
           spec_reweighted_pass seq S B1 out = [b1 / (1 - b0), - TR seq / ln b0]"
proof -
  let ?n = "length (flip seq)"
  let ?w = "spec_weight seq (out ! 1) B1"
  let ?x = "spec_X seq S B1"
  let ?y = "spec_Y seq S B1"
  obtain b0 b1 where b:
    "partialPivLu_solve
       ((\<Sum>i<?n. ?w i * ?x i * ?x i, \<Sum>i<?n. ?w i * ?x i), (\<Sum>i<?n. ?w i * ?x i, \<Sum>i<?n. ?w i))
       (\<Sum>i<?n. ?w i * ?x i * ?y i, \<Sum>i<?n. ?w i * ?y i) = (b0, b1)"
    by (cases "partialPivLu_solve
       ((\<Sum>i<?n. ?w i * ?x i * ?x i, \<Sum>i<?n. ?w i * ?x i), (\<Sum>i<?n. ?w i * ?x i, \<Sum>i<?n. ?w i))
       (\<Sum>i<?n. ?w i * ?x i * ?y i, \<Sum>i<?n. ?w i * ?y i)") blast
  from assms b have "normal_equations ?n ?w ?x ?y b0 b1"
    by (rule solve_normal_equations)
  moreover have "spec_reweighted_pass seq S B1 out = [b1 / (1 - b0), - TR seq / ln b0]"
    unfolding spec_reweighted_pass_def Let_def b by simp
  ultimately show ?thesis by blast
qed

lemma regular_weighted_two:
  "regular_system (length (flip two_angles))
     (spec_weight two_angles ([10 / 3, - (1 / 200) / ln (5 / 2)] ! 1) ([1] ! 0))
     (spec_X two_angles [3, 8] ([1] ! 0))"
  by (simp add: regular_system_def spec_weight_def spec_X_def two_angles_def lessThan_Suc
      numeral_2_eq_2 tan_arctan sin_arctan_3_4 sin_arctan_4_3 cos_arctan_3_4 cos_arctan_4_3
      power2_eq_square)

subsection \<open>The filter and the statics\<close>

lemma ThreadedGenerateData_statics:
  "ThreadedGenerateData g sig cast n region maskIter k out
   = ThreadedGenerateData g' sig cast n region maskIter k out"
proof (induction g sig cast n region maskIter k out rule: ThreadedGenerateData.induct)
  case (1 g sig cast n region maskIter k out)
  show ?case
  proof (cases "k < length region")
    case True
    then show ?thesis
      by (subst ThreadedGenerateData.simps, subst (2) ThreadedGenerateData.simps)
        (simp add: "1.IH")
  next
    case False
    then show ?thesis
      by (subst ThreadedGenerateData.simps, subst (2) ThreadedGenerateData.simps) simp
  qed
qed

lemma ThreadedGenerateData_one_voxel:
  "ThreadedGenerateData g sig cast n [p] None 0 [v] = [take n (map cast (sig p))]"
proof -
  have "ThreadedGenerateData g sig cast n [p] None (Suc 0) [take n (map cast (sig p))]
        = [take n (map cast (sig p))]"
    by (subst ThreadedGenerateData.simps) simp
  then show ?thesis
    by (subst ThreadedGenerateData.simps) (simp add: Let_def)
qed

lemma end_marker_ends_input:
  "parseInput Read_line make_class acc (''END'' # cin) = Some (Inr (acc, cin))"
  "parseInput Read_line make_class acc ([] # cin) = Some (Inr (acc, cin))"
  by (subst parseInput.simps, simp add: Read_line_def)+

section \<open>The claims\<close>

text \<open>
  C4. For every data vector and constants vector, the reweighted strategy with an
  iteration count of 0 returns exactly what the closed-form linear strategy
  returns on the same inputs: the same outputs \<open>PD\<close> and \<open>T1\<close>, the same residuals,
  and the same failure where the sizes are wrong. The iteration count of the
  closed-form strategy plays no part.
\<close>

theorem wlls_zero_iterations_is_lls:
  "DESPOT1_apply nDiff minimize \<lparr>m_type = WLLS, m_iterations = 0\<rparr> sequence data inputs
   = DESPOT1_apply nDiff minimize \<lparr>m_type = LLS, m_iterations = its\<rparr> sequence data inputs"
  unfolding DESPOT1_apply_def Let_def
  by (simp add: wlls_loop_funpow)

text \<open>
  C1, as amended. Whenever \<open>DESPOT1::apply\<close> returns, for each of the three
  strategies, the residual vector is as long as the data and, at every condition
  index \<open>i\<close>, \<open>residual[i] = data[i] - |signal(model, seq, outputs)[i]|\<close>: the
  original data minus the forward-model magnitude at the estimated parameters
  (with the constant \<open>B1\<close> in the parameter vector). The claim has the two terms
  the other way round.
\<close>

theorem residual_is_data_minus_magnitude:
  assumes "DESPOT1_apply nDiff minimize this seq data inputs = Inr (outputs, resids)"
  shows "length resids = length data \<and>
         (\<forall>i<length data.
            resids ! i
            = data ! i - cmod (signal seq [outputs ! 0, outputs ! 1, 0, 0, inputs ! 0] ! i))"
  using apply_residuals [OF assms]
  by (simp add: nth_residuals length_residuals)

text \<open>The amended statement at the three-angle example, condition 0.\<close>

theorem residual_is_data_minus_magnitude_witness:
  "DESPOT1_apply id keep_start DESPOT1_new three_angles [3, 4, 5] [1]
     = Inr ([129 / 5, - (1 / 200) / ln (68 / 73)], [- (36 / 31), 128 / 161, 20 / 133]) \<and>
   [- (36 / 31), 128 / 161, 20 / 133] ! 0
     = [3, 4, 5] ! 0 - cmod (signal three_angles [129 / 5, - (1 / 200) / ln (68 / 73), 0, 0, 1] ! 0)"
proof -
  have run: "DESPOT1_apply id keep_start DESPOT1_new three_angles [3, 4, 5] [1]
     = Inr ([129 / 5, - (1 / 200) / ln (68 / 73)], [- (36 / 31), 128 / 161, 20 / 133])"
    unfolding DESPOT1_new_def by (rule apply_three)
  have "\<forall>i<length [3, 4, 5 :: real].
          [- (36 / 31), 128 / 161, 20 / 133] ! i
          = [3, 4, 5] ! i
            - cmod (signal three_angles
                [[129 / 5, - (1 / 200) / ln (68 / 73)] ! 0,
                 [129 / 5, - (1 / 200) / ln (68 / 73)] ! 1, 0, 0, [1] ! 0] ! i)"
    using residual_is_data_minus_magnitude [OF run] by (rule conjunct2)
  then have "0 < length [3, 4, 5 :: real] \<longrightarrow>
          [- (36 / 31), 128 / 161, 20 / 133] ! 0
          = [3, 4, 5] ! 0
            - cmod (signal three_angles
                [[129 / 5, - (1 / 200) / ln (68 / 73)] ! 0,
                 [129 / 5, - (1 / 200) / ln (68 / 73)] ! 1, 0, 0, [1] ! 0] ! 0)"
    by (rule spec)
  then have "[- (36 / 31), 128 / 161, 20 / 133] ! 0
     = [3, 4, 5] ! 0 - cmod (signal three_angles [129 / 5, - (1 / 200) / ln (68 / 73), 0, 0, 1] ! 0)"
    by simp
  with run show ?thesis by (rule conjI)
qed

text \<open>
  The claim as stated fails at the three-angle example with data 3, 4, 5 and
  \<open>B1 = 1\<close>: the closed-form fit returns \<open>PD = 129/5\<close> and
  \<open>T1 = -0.005 / ln(68/73)\<close>, the model magnitude at condition 0 is 129/31, and
  the residual there is \<open>3 - 129/31 = -36/31\<close>, not \<open>129/31 - 3\<close>.
\<close>

theorem residual_sign_counterexample:
  "DESPOT1_apply id keep_start DESPOT1_new three_angles [3, 4, 5] [1]
     = Inr ([129 / 5, - (1 / 200) / ln (68 / 73)], [- (36 / 31), 128 / 161, 20 / 133]) \<and>
   [- (36 / 31), 128 / 161, 20 / 133] ! 0
     \<noteq> cmod (signal three_angles [129 / 5, - (1 / 200) / ln (68 / 73), 0, 0, 1] ! 0) - [3, 4, 5] ! 0"
proof -
  have run: "DESPOT1_apply id keep_start DESPOT1_new three_angles [3, 4, 5] [1]
     = Inr ([129 / 5, - (1 / 200) / ln (68 / 73)], [- (36 / 31), 128 / 161, 20 / 133])"
    unfolding DESPOT1_new_def by (rule apply_three)
  have "[- (36 / 31), 128 / 161, 20 / 133] ! 0
     \<noteq> cmod (signal three_angles [129 / 5, - (1 / 200) / ln (68 / 73), 0, 0, 1] ! 0) - [3, 4, 5] ! 0"
    unfolding signal_three by simp
  with run show ?thesis by (rule conjI)
qed

text \<open>
  C2. For every data vector and \<open>B1\<close> constant (of the sizes \<open>apply\<close> asserts) the
  closed-form linear strategy linearises with \<open>Y = S / sin(\<alpha> * B1)\<close> and
  \<open>X = S / tan(\<alpha> * B1)\<close> per flip angle, \<open>B1\<close> scaling every nominal flip angle,
  applies the solver to the system \<open>(X\<^sup>t X) b = X\<^sup>t Y\<close> of the ordinary
  least-squares fit of \<open>Y\<close> on \<open>[X, 1]\<close>, and returns \<open>T1 = -TR / ln(b0)\<close> and
  \<open>PD = b1 / (1 - b0)\<close>. Whenever the system is regular, \<open>b0\<close> and \<open>b1\<close> are its
  solution: they satisfy the normal equations.
\<close>

theorem closed_form_linear_fit:
  assumes "inputs \<noteq> []" and "length data = length (flip seq)"
  shows "\<exists>b0 b1 resids.
           partialPivLu_solve
             ((\<Sum>i<length data. spec_X seq data (inputs ! 0) i * spec_X seq data (inputs ! 0) i,
               \<Sum>i<length data. spec_X seq data (inputs ! 0) i),
              (\<Sum>i<length data. spec_X seq data (inputs ! 0) i, real (length data)))
             (\<Sum>i<length data. spec_X seq data (inputs ! 0) i * spec_Y seq data (inputs ! 0) i,
              \<Sum>i<length data. spec_Y seq data (inputs ! 0) i) = (b0, b1) \<and>
           (regular_system (length data) (\<lambda>i. 1) (spec_X seq data (inputs ! 0)) \<longrightarrow>
            normal_equations (length data) (\<lambda>i. 1) (spec_X seq data (inputs ! 0))
              (spec_Y seq data (inputs ! 0)) b0 b1) \<and>
           DESPOT1_apply nDiff minimize \<lparr>m_type = LLS, m_iterations = its\<rparr> seq data inputs
             = Inr ([b1 / (1 - b0), - TR seq / ln b0], resids)"
proof -
  let ?n = "length data"
  let ?x = "spec_X seq data (inputs ! 0)"
  let ?y = "spec_Y seq data (inputs ! 0)"
  obtain b0 b1 where b:
    "partialPivLu_solve ((\<Sum>i<?n. ?x i * ?x i, \<Sum>i<?n. ?x i), (\<Sum>i<?n. ?x i, real ?n))
       (\<Sum>i<?n. ?x i * ?y i, \<Sum>i<?n. ?y i) = (b0, b1)"
    by (cases "partialPivLu_solve ((\<Sum>i<?n. ?x i * ?x i, \<Sum>i<?n. ?x i), (\<Sum>i<?n. ?x i, real ?n))
       (\<Sum>i<?n. ?x i * ?y i, \<Sum>i<?n. ?y i)") blast
  have ne: "regular_system ?n (\<lambda>i. 1) ?x \<longrightarrow> normal_equations ?n (\<lambda>i. 1) ?x ?y b0 b1"
  proof
    assume reg: "regular_system ?n (\<lambda>i. 1) ?x"
    from b have "partialPivLu_solve
              ((\<Sum>i<?n. 1 * ?x i * ?x i, \<Sum>i<?n. 1 * ?x i), (\<Sum>i<?n. 1 * ?x i, \<Sum>i<?n. 1))
              (\<Sum>i<?n. 1 * ?x i * ?y i, \<Sum>i<?n. 1 * ?y i) = (b0, b1)"
      by simp
    with reg show "normal_equations ?n (\<lambda>i. 1) ?x ?y b0 b1"
      by (rule solve_normal_equations)
  qed
  have out: "lls_outputs seq data (inputs ! 0) = [b1 / (1 - b0), - TR seq / ln b0]"
    unfolding lls_outputs_sums [OF assms(2)] Let_def b by simp
  have "DESPOT1_apply nDiff minimize \<lparr>m_type = LLS, m_iterations = its\<rparr> seq data inputs
        = Inr ([b1 / (1 - b0), - TR seq / ln b0],
               residuals seq data (inputs ! 0) [b1 / (1 - b0), - TR seq / ln b0])"
    by (simp only: DESPOT1_apply_lls [OF assms(1) assms(2)] out)
  with b ne show ?thesis by blast
qed

text \<open>The two-angle example with data 3, 8 (\<open>X = 4, 6\<close> and \<open>Y = 5, 10\<close>) is regular.\<close>

theorem closed_form_linear_fit_witness:
  "\<exists>b0 b1 resids.
     normal_equations (length [3, 8 :: real]) (\<lambda>i. 1) (spec_X two_angles [3, 8] ([1] ! 0))
       (spec_Y two_angles [3, 8] ([1] ! 0)) b0 b1 \<and>
     DESPOT1_apply id keep_start \<lparr>m_type = LLS, m_iterations = 4\<rparr> two_angles [3, 8] [1]
       = Inr ([b1 / (1 - b0), - TR two_angles / ln b0], resids)"
proof -
  have a: "[1 :: real] \<noteq> []" by simp
  have b: "length [3, 8 :: real] = length (flip two_angles)"
    by (simp add: two_angles_def)
  from closed_form_linear_fit [OF a b, of id keep_start 4] regular_two
  show ?thesis by blast
qed

text \<open>
  C3. The reweighted strategy performs exactly the configured number of passes
  (the member initialiser sets 4), with no test for convergence: its output is
  the specification's reweighting pass, iterated \<open>m_iterations\<close> times on the
  closed-form linear output. Each pass takes the weights
  \<open>w(\<alpha>) = [sin(\<alpha>*B1) / (1 - exp(-TR/T1)*cos(\<alpha>*B1))]\<^sup>2\<close> at the current \<open>T1\<close>, solves
  the weighted normal equations (its \<open>b0\<close>, \<open>b1\<close> satisfy them whenever they are
  regular) and derives \<open>T1 = -TR / ln(b0)\<close> and \<open>PD = b1 / (1 - b0)\<close> anew.
\<close>

theorem wlls_runs_configured_passes:
  "m_iterations DESPOT1_new = 4 \<and>
   (DESPOT1_apply nDiff minimize \<lparr>m_type = LLS, m_iterations = k\<rparr> seq data inputs
      = Inr (out0, res0) \<longrightarrow>
    (\<exists>resids.
       DESPOT1_apply nDiff minimize \<lparr>m_type = WLLS, m_iterations = its\<rparr> seq data inputs
       = Inr ((spec_reweighted_pass seq data (inputs ! 0) ^^ unat its) out0, resids))) \<and>
   (regular_system (length (flip seq)) (spec_weight seq (out ! 1) B1) (spec_X seq S B1) \<longrightarrow>
    (\<exists>b0 b1.
       normal_equations (length (flip seq)) (spec_weight seq (out ! 1) B1)
         (spec_X seq S B1) (spec_Y seq S B1) b0 b1 \<and>
       spec_reweighted_pass seq S B1 out = [b1 / (1 - b0), - TR seq / ln b0]))"
proof (intro conjI impI)
  show "m_iterations DESPOT1_new = 4"
    by (simp add: DESPOT1_new_def)
next
  assume lls: "DESPOT1_apply nDiff minimize \<lparr>m_type = LLS, m_iterations = k\<rparr> seq data inputs
      = Inr (out0, res0)"
  note ok = apply_residuals(2,3) [OF lls]
  show "\<exists>resids.
       DESPOT1_apply nDiff minimize \<lparr>m_type = WLLS, m_iterations = its\<rparr> seq data inputs
       = Inr ((spec_reweighted_pass seq data (inputs ! 0) ^^ unat its) out0, resids)"
    by (simp only: DESPOT1_apply_wlls [OF ok] apply_lls_outputs [OF lls]) blast
next
  assume "regular_system (length (flip seq)) (spec_weight seq (out ! 1) B1) (spec_X seq S B1)"
  then show "\<exists>b0 b1.
       normal_equations (length (flip seq)) (spec_weight seq (out ! 1) B1)
         (spec_X seq S B1) (spec_Y seq S B1) b0 b1 \<and>
       spec_reweighted_pass seq S B1 out = [b1 / (1 - b0), - TR seq / ln b0]"
    by (rule spec_reweighted_pass_solves)
qed

theorem wlls_runs_configured_passes_witness:
  "m_iterations DESPOT1_new = 4 \<and>
   DESPOT1_apply id keep_start \<lparr>m_type = LLS, m_iterations = 4\<rparr> two_angles [3, 8] [1]
     = Inr ([10 / 3, - (1 / 200) / ln (5 / 2)], [0, 0]) \<and>
   (\<exists>resids.
      DESPOT1_apply id keep_start \<lparr>m_type = WLLS, m_iterations = 4\<rparr> two_angles [3, 8] [1]
      = Inr ((spec_reweighted_pass two_angles [3, 8] ([1] ! 0) ^^ unat (4 :: 64 word))
               [10 / 3, - (1 / 200) / ln (5 / 2)], resids)) \<and>
   (\<exists>b0 b1.
      normal_equations (length (flip two_angles))
        (spec_weight two_angles ([10 / 3, - (1 / 200) / ln (5 / 2)] ! 1) ([1] ! 0))
        (spec_X two_angles [3, 8] ([1] ! 0)) (spec_Y two_angles [3, 8] ([1] ! 0)) b0 b1 \<and>
      spec_reweighted_pass two_angles [3, 8] ([1] ! 0) [10 / 3, - (1 / 200) / ln (5 / 2)]
      = [b1 / (1 - b0), - TR two_angles / ln b0])"
proof -
  have run: "DESPOT1_apply id keep_start \<lparr>m_type = LLS, m_iterations = 4\<rparr> two_angles [3, 8] [1]
     = Inr ([10 / 3, - (1 / 200) / ln (5 / 2)], [0, 0])"
    by (rule apply_two)
  note T = wlls_runs_configured_passes
    [of id keep_start 4 two_angles "[3, 8]" "[1]" "[10 / 3, - (1 / 200) / ln (5 / 2)]" "[0, 0]" 4
      "[10 / 3, - (1 / 200) / ln (5 / 2)]" "[1] ! 0" "[3, 8]"]
  from T have a: "m_iterations DESPOT1_new = 4" by (rule conjunct1)
  from T run have b: "\<exists>resids.
      DESPOT1_apply id keep_start \<lparr>m_type = WLLS, m_iterations = 4\<rparr> two_angles [3, 8] [1]
      = Inr ((spec_reweighted_pass two_angles [3, 8] ([1] ! 0) ^^ unat (4 :: 64 word))
               [10 / 3, - (1 / 200) / ln (5 / 2)], resids)"
    by blast
  from T regular_weighted_two have c: "\<exists>b0 b1.
      normal_equations (length (flip two_angles))
        (spec_weight two_angles ([10 / 3, - (1 / 200) / ln (5 / 2)] ! 1) ([1] ! 0))
        (spec_X two_angles [3, 8] ([1] ! 0)) (spec_Y two_angles [3, 8] ([1] ! 0)) b0 b1 \<and>
      spec_reweighted_pass two_angles [3, 8] ([1] ! 0) [10 / 3, - (1 / 200) / ln (5 / 2)]
      = [b1 / (1 - b0), - TR two_angles / ln b0]"
    by blast
  from a run b c show ?thesis by blast
qed



text \<open>
  C8. In the nonlinear strategy the value passed to \<open>setMaxfev\<close>, the optimiser's
  limit on function evaluations, is \<open>m_iterations * (sequence->size() + 1)\<close>: the
  iteration count times the number of conditions plus one, as a product of
  64-bit words, which is the product of the numbers whenever that is below
  \<open>2\<^sup>6\<^sup>4\<close>. The optimiser is handed no closed-form Jacobian: it gets the functor
  wrapped by \<open>NumericalDiff\<close>, and the functor is the forward model's magnitude
  minus the data.
\<close>

theorem nlls_evaluation_budget:
  "(inputs \<noteq> [] \<and> length data = length (flip seq) \<longrightarrow>
      (\<exists>start resids.
         DESPOT1_apply nDiff minimize \<lparr>m_type = NLLS, m_iterations = its\<rparr> seq data inputs
         = Inr (minimize (nDiff (T1Functor seq data (inputs ! 0)))
                  (its * (SequenceBase_size seq + 1)) start, resids))) \<and>
   (unat its * (length (flip seq) + 1) < 2 ^ 64 \<longrightarrow>
      unat (its * (SequenceBase_size seq + 1)) = unat its * (length (flip seq) + 1)) \<and>
   T1Functor seq data B1 [PD, T1]
     = map2 (\<lambda>s d. cmod s - d) (signal seq [PD, T1, 0, 0, B1]) data"
proof (intro conjI impI)
  assume "inputs \<noteq> [] \<and> length data = length (flip seq)"
  then have ok: "inputs \<noteq> []" "length data = length (flip seq)"
    by simp_all
  show "\<exists>start resids.
         DESPOT1_apply nDiff minimize \<lparr>m_type = NLLS, m_iterations = its\<rparr> seq data inputs
         = Inr (minimize (nDiff (T1Functor seq data (inputs ! 0)))
                  (its * (SequenceBase_size seq + 1)) start, resids)"
    by (simp only: DESPOT1_apply_nlls [OF ok]) blast
next
  assume "unat its * (length (flip seq) + 1) < 2 ^ 64"
  then show "unat (its * (SequenceBase_size seq + 1)) = unat its * (length (flip seq) + 1)"
    by (rule budget_no_wrap)
next
  show "T1Functor seq data B1 [PD, T1]
     = map2 (\<lambda>s d. cmod s - d) (signal seq [PD, T1, 0, 0, B1]) data"
    by (rule T1Functor_two_params)
qed

theorem nlls_evaluation_budget_witness:
  "(\<exists>start resids.
      DESPOT1_apply id keep_start \<lparr>m_type = NLLS, m_iterations = 4\<rparr> two_angles [3, 8] [1]
      = Inr (keep_start (id (T1Functor two_angles [3, 8] ([1] ! 0)))
               (4 * (SequenceBase_size two_angles + 1)) start, resids)) \<and>
   unat (4 * (SequenceBase_size two_angles + 1)) = unat (4 :: 64 word) * (length (flip two_angles) + 1) \<and>
   unat (4 * (SequenceBase_size two_angles + 1)) = 12"
proof -
  note T = nlls_evaluation_budget [of "[1]" "[3, 8]" two_angles id keep_start 4]
  have sizes: "[1 :: real] \<noteq> [] \<and> length [3, 8 :: real] = length (flip two_angles)"
    by (simp add: two_angles_def)
  have small: "unat (4 :: 64 word) * (length (flip two_angles) + 1) < 2 ^ 64"
    by (simp add: two_angles_def)
  from T sizes have a: "\<exists>start resids.
      DESPOT1_apply id keep_start \<lparr>m_type = NLLS, m_iterations = 4\<rparr> two_angles [3, 8] [1]
      = Inr (keep_start (id (T1Functor two_angles [3, 8] ([1] ! 0)))
               (4 * (SequenceBase_size two_angles + 1)) start, resids)"
    by blast
  from T small have b: "unat (4 * (SequenceBase_size two_angles + 1))
      = unat (4 :: 64 word) * (length (flip two_angles) + 1)"
    by blast
  then have c: "unat (4 * (SequenceBase_size two_angles + 1)) = 12"
    by (simp add: two_angles_def)
  from a b c show ?thesis by blast
qed

text \<open>
  C5, as amended. \<open>DESPOT1::apply\<close> has no failure for a non-positive \<open>T1\<close>: in
  every strategy it returns an output vector and residuals exactly when its
  size assertions hold, whatever the value of \<open>T1\<close>. In particular, when the
  normal equations of the closed-form linear fit are regular and their solution
  has slope \<open>b0 > 1\<close> (with \<open>TR > 0\<close>), the closed-form strategy returns
  \<open>T1 = -TR / ln(b0) < 0\<close> as its normal output.
\<close>

theorem estimate_returns_whatever_T1:
  "((\<exists>outputs resids. DESPOT1_apply nDiff minimize this seq data inputs = Inr (outputs, resids))
    \<longleftrightarrow> inputs \<noteq> [] \<and> length data = length (flip seq)) \<and>
   (inputs \<noteq> [] \<and> length data = length (flip seq) \<and>
    regular_system (length data) (\<lambda>i. 1) (spec_X seq data (inputs ! 0)) \<and>
    normal_equations (length data) (\<lambda>i. 1) (spec_X seq data (inputs ! 0))
      (spec_Y seq data (inputs ! 0)) b0 b1 \<and>
    1 < b0 \<and> 0 < TR seq \<longrightarrow>
    (\<exists>PD T1 resids.
       DESPOT1_apply nDiff minimize \<lparr>m_type = LLS, m_iterations = its\<rparr> seq data inputs
       = Inr ([PD, T1], resids) \<and> T1 < 0))"
proof (intro conjI impI)
  show "(\<exists>outputs resids. DESPOT1_apply nDiff minimize this seq data inputs = Inr (outputs, resids))
    \<longleftrightarrow> inputs \<noteq> [] \<and> length data = length (flip seq)"
    by (rule apply_returns_iff)
next
  assume h: "inputs \<noteq> [] \<and> length data = length (flip seq) \<and>
    regular_system (length data) (\<lambda>i. 1) (spec_X seq data (inputs ! 0)) \<and>
    normal_equations (length data) (\<lambda>i. 1) (spec_X seq data (inputs ! 0))
      (spec_Y seq data (inputs ! 0)) b0 b1 \<and>
    1 < b0 \<and> 0 < TR seq"
  then have ok: "inputs \<noteq> []" "length data = length (flip seq)"
    and reg: "regular_system (length data) (\<lambda>i. 1) (spec_X seq data (inputs ! 0))"
    and ne: "normal_equations (length data) (\<lambda>i. 1) (spec_X seq data (inputs ! 0))
      (spec_Y seq data (inputs ! 0)) b0 b1"
    and big: "1 < b0" and tr: "0 < TR seq"
    by blast+
  from lls_outputs_normal_equations [OF ok(2) reg]
  obtain c0 c1 where
    nc: "normal_equations (length data) (\<lambda>i. 1) (spec_X seq data (inputs ! 0))
           (spec_Y seq data (inputs ! 0)) c0 c1"
    and out: "lls_outputs seq data (inputs ! 0) = [c1 / (1 - c0), - TR seq / ln c0]"
    by blast
  from normal_equations_unique [OF reg ne nc] have same: "c0 = b0" "c1 = b1"
    by simp_all
  have run: "DESPOT1_apply nDiff minimize \<lparr>m_type = LLS, m_iterations = its\<rparr> seq data inputs
        = Inr ([b1 / (1 - b0), - TR seq / ln b0],
               residuals seq data (inputs ! 0) [b1 / (1 - b0), - TR seq / ln b0])"
    by (simp only: DESPOT1_apply_lls [OF ok] out same)
  from big have "0 < ln b0" by simp
  with tr have "- TR seq / ln b0 < 0"
    by (simp add: field_simps)
  with run show "\<exists>PD T1 resids.
       DESPOT1_apply nDiff minimize \<lparr>m_type = LLS, m_iterations = its\<rparr> seq data inputs
       = Inr ([PD, T1], resids) \<and> T1 < 0"
    by blast
qed

text \<open>
  The two-angle example with data 3, 8: the slope is \<open>b0 = 5/2\<close> and the intercept
  \<open>b1 = -5\<close>.
\<close>

theorem estimate_returns_whatever_T1_witness:
  "(\<exists>outputs resids.
      DESPOT1_apply id keep_start DESPOT1_new two_angles [3, 8] [1] = Inr (outputs, resids)) \<and>
   (\<exists>PD T1 resids.
      DESPOT1_apply id keep_start \<lparr>m_type = LLS, m_iterations = 4\<rparr> two_angles [3, 8] [1]
      = Inr ([PD, T1], resids) \<and> T1 < 0)"
proof -
  note T = estimate_returns_whatever_T1
    [of id keep_start _ two_angles "[3, 8]" "[1]" "5 / 2" "- 5" 4]
  have sizes: "[1 :: real] \<noteq> [] \<and> length [3, 8 :: real] = length (flip two_angles)"
    by (simp add: two_angles_def)
  have tr: "(1 :: real) < 5 / 2 \<and> 0 < TR two_angles"
    by (simp add: two_angles_def)
  from T [of DESPOT1_new] sizes have a: "\<exists>outputs resids.
      DESPOT1_apply id keep_start DESPOT1_new two_angles [3, 8] [1] = Inr (outputs, resids)"
    by blast
  from T [of DESPOT1_new] sizes regular_two normal_two tr have b: "\<exists>PD T1 resids.
      DESPOT1_apply id keep_start \<lparr>m_type = LLS, m_iterations = 4\<rparr> two_angles [3, 8] [1]
      = Inr ([PD, T1], resids) \<and> T1 < 0"
    by blast
  from a b show ?thesis by (rule conjI)
qed

text \<open>
  The claim as stated fails at that example: the strategy produces
  \<open>T1 = -0.005 / ln(5/2) < 0\<close>, and \<open>apply\<close> returns it with \<open>PD = 10/3\<close> and the
  residuals, as any other result.
\<close>

theorem nonpositive_T1_counterexample:
  "DESPOT1_apply id keep_start DESPOT1_new two_angles [3, 8] [1]
     = Inr ([10 / 3, - (1 / 200) / ln (5 / 2)], [0, 0]) \<and>
   [10 / 3, - (1 / 200) / ln (5 / 2)] ! 1 < (0 :: real)"
proof -
  have run: "DESPOT1_apply id keep_start DESPOT1_new two_angles [3, 8] [1]
     = Inr ([10 / 3, - (1 / 200) / ln (5 / 2)], [0, 0])"
    unfolding DESPOT1_new_def by (rule apply_two)
  have "(0 :: real) < ln (5 / 2)" by simp
  then have "[10 / 3, - (1 / 200) / ln (5 / 2)] ! 1 < (0 :: real)"
    by (simp add: field_simps)
  with run show ?thesis by (rule conjI)
qed




text \<open>
  C9. Whenever \<open>parseInput\<close> reads a type name that is not one of \<open>SPGR\<close>,
  \<open>SPGRFinite\<close>, \<open>SSFP\<close>, \<open>SSFPFinite\<close>, \<open>SSFPEllipse\<close>, \<open>IRSPGR\<close>, \<open>MPRAGE\<close>, \<open>AFI\<close>,
  \<open>SPINECHO\<close>, it throws at once a \<open>runtime_error\<close> whose message names the type;
  no sequence is built for it and the name is not passed over. A type name is
  what reaches the comparisons: the loop's guard takes the end marker \<open>END\<close> and
  the empty line, which end the input, before them. The state \<open>acc\<close> and the
  stream are arbitrary, so this holds at every pass of the loop.
\<close>

theorem unknown_type_is_an_error:
  assumes "rd cin = Inr (True, type, cin1)"
    and "type \<notin> {''SPGR'', ''SPGRFinite'', ''SSFP'', ''SSFPFinite'', ''SSFPEllipse'',
                  ''IRSPGR'', ''MPRAGE'', ''AFI'', ''SPINECHO''}"
    and "type \<noteq> ''END''" and "type \<noteq> ''''"
  shows "parseInput rd make_shared acc cin
         = Some (Inl (runtime_error (''Unknown signal type: '' @ type)))"
proof -
  from assms(2) have "sequence_class type = None"
    by (simp add: sequence_class_def)
  with assms(1,3,4) show ?thesis
    by (subst parseInput.simps) simp
qed

theorem unknown_type_is_an_error_witness:
  "parseInput Read_line make_class ([], []) [''T2MAP'']
   = Some (Inl (runtime_error ''Unknown signal type: T2MAP''))"
  using unknown_type_is_an_error
    [of Read_line "[''T2MAP'']" "''T2MAP''" "[]" make_class "([], [])"]
  by (simp add: Read_line_def)

text \<open>
  C6. The code does not do what the claim says: the option \<open>N\<close> stores its
  argument in \<open>sigma\<close>, and nothing reads \<open>sigma\<close> afterwards. What is written for
  a sequence is the same for every value of \<open>sigma\<close>, and an unmasked voxel gets
  the forward model's signal (narrowed to \<open>float\<close>) with no noise added.
\<close>

theorem noise_option_is_ignored:
  "getopt_switch atof g (CHR ''N'', optarg) = Some (g\<lparr>sigma := atof optarg\<rparr>) \<and>
   write_sequence (g\<lparr>sigma := s\<rparr>) sig cast n region maskIter out
     = write_sequence g sig cast n region maskIter out \<and>
   ThreadedGenerateData (g\<lparr>sigma := s\<rparr>) sig cast n [p] None 0 [v]
     = [take n (map cast (sig p))]"
proof (intro conjI)
  show "getopt_switch atof g (CHR ''N'', optarg) = Some (g\<lparr>sigma := atof optarg\<rparr>)"
    by (simp add: getopt_switch_def)
next
  have "ThreadedGenerateData (g\<lparr>sigma := s\<rparr>) sig cast n region maskIter 0 out
        = ThreadedGenerateData g sig cast n region maskIter 0 out"
    by (rule ThreadedGenerateData_statics)
  then show "write_sequence (g\<lparr>sigma := s\<rparr>) sig cast n region maskIter out
     = write_sequence g sig cast n region maskIter out"
    by (simp add: write_sequence_def)
next
  show "ThreadedGenerateData (g\<lparr>sigma := s\<rparr>) sig cast n [p] None 0 [v]
     = [take n (map cast (sig p))]"
    by (rule ThreadedGenerateData_one_voxel)
qed

end
